theory Spec2Isabelle
  imports Main "HOL-Library.List_Lexorder" "HOL-Library.Char_ord"
begin

text \<open>
  A shallow embedding of the submission-protection pipeline of the website backend:
  the per-IP rate limiter, the Content-Length middleware and the submission handler of
  \<^verbatim>\<open>main.go\<close>, the Turnstile verifier of package \<^verbatim>\<open>turnstile\<close> and the sanitizer and
  mail body of package \<^verbatim>\<open>mail\<close>. Global state (the rate-limit table) and the effects on
  the outside (log, verification requests, mails) are passed explicitly; the clock, the
  network and the parts of the Go standard library that are not written out are inputs.
\<close>

section \<open>Configuration (config/config.go)\<close>

text \<open>
  Only the parts of \<^verbatim>\<open>Config\<close> that the submission pipeline reads are modelled:
  \<^verbatim>\<open>OptionsConfig\<close>, \<^verbatim>\<open>CFTurnConfig\<close> and \<^verbatim>\<open>SMTPConfig\<close>. \<^verbatim>\<open>MaxBodySize\<close> is an \<^verbatim>\<open>int64\<close>
  that is only ever compared, so it is an \<open>int\<close>.
\<close>

record OptionsConfig =
  EnableRateLimiting :: bool
  MaxBodySize :: int
  BlockBotUserAgents :: bool
  CTAEndpoint :: string

record CFTurnConfig =
  Endpoint :: string
  Secret :: string

record SMTPConfig =
  Server :: string
  Port :: int
  Encryption :: string
  Username :: string
  Password :: string
  VerifyTLS :: bool
  From :: string
  To :: string

record Config =
  CFTurn :: CFTurnConfig
  SMTP :: SMTPConfig
  Options :: OptionsConfig

section \<open>Rate limiter (main.go, allowRate)\<close>

text \<open>
  A \<^verbatim>\<open>time.Time\<close> obtained from \<^verbatim>\<open>time.Now()\<close> carries a monotonic clock reading
  in nanoseconds, and \<^verbatim>\<open>Time.Sub\<close> of two such values subtracts the readings and
  saturates at the bounds of \<^verbatim>\<open>time.Duration\<close> (an \<^verbatim>\<open>int64\<close>).
\<close>

type_synonym time = int

definition maxDuration :: int where
  "maxDuration = 2 ^ 63 - 1"

definition minDuration :: int where
  "minDuration = - (2 ^ 63)"

definition time_sub :: "time \<Rightarrow> time \<Rightarrow> int" where
  "time_sub t u =
     (let d = t - u in
      if d > maxDuration then maxDuration
      else if d < minDuration then minDuration
      else d)"

definition limit :: nat where
  "limit = 5"

definition window :: int where
  "window = 60 * 1000000000"

text \<open>The pruning loop: \<^verbatim>\<open>for _, ts := range t { if now.Sub(ts) <= window { nt = append(nt, ts) } }\<close>.\<close>

fun prune :: "time \<Rightarrow> time list \<Rightarrow> time list \<Rightarrow> time list" where
  "prune now [] nt = nt"
| "prune now (ts # t) nt =
     (if time_sub now ts \<le> window then prune now t (nt @ [ts]) else prune now t nt)"

text \<open>
  \<^verbatim>\<open>rlimap\<close> is a \<^verbatim>\<open>map[string]*rateInfo\<close>; a \<^verbatim>\<open>rateInfo\<close> holds only the slice of
  timestamps, and no pointer to it is shared, so the table is a map from the client
  identity to the list of timestamps. The clock reading \<open>now\<close> is an input, and the
  updated table is returned with the decision. The mutex makes each call atomic.
\<close>

type_synonym rlimap = "string \<rightharpoonup> time list"

definition allowRate :: "OptionsConfig \<Rightarrow> time \<Rightarrow> string \<Rightarrow> rlimap \<Rightarrow> bool \<times> rlimap" where
  "allowRate opts now ip rl =
     (if \<not> EnableRateLimiting opts then (True, rl)
      else case rl ip of
          None \<Rightarrow> (True, rl(ip \<mapsto> [now]))
        | Some t \<Rightarrow>
            (let nt = prune now t [] @ [now] in
             if length nt > limit then (False, rl(ip \<mapsto> nt)) else (True, rl(ip \<mapsto> nt))))"

text \<open>A sequence of admission checks for one identity, at the given clock readings.\<close>

fun allowRate_seq :: "OptionsConfig \<Rightarrow> string \<Rightarrow> time list \<Rightarrow> rlimap \<Rightarrow> bool list \<times> rlimap" where
  "allowRate_seq opts ip [] rl = ([], rl)"
| "allowRate_seq opts ip (now # nows) rl =
     (let (ok, rl') = allowRate opts now ip rl;
          (oks, rl'') = allowRate_seq opts ip nows rl'
      in (ok # oks, rl''))"

text \<open>A sequence of admission checks by arbitrary identities.\<close>

fun allowRate_run :: "OptionsConfig \<Rightarrow> (time \<times> string) list \<Rightarrow> rlimap \<Rightarrow> rlimap" where
  "allowRate_run opts [] rl = rl"
| "allowRate_run opts ((now, ip) # calls) rl = allowRate_run opts calls (snd (allowRate opts now ip rl))"

section \<open>Strings (Go standard library, on bytes)\<close>

text \<open>
  A Go \<^verbatim>\<open>string\<close> is a sequence of bytes, as \<open>string\<close> is here. The library
  functions below are the ones the program calls; each is written out on bytes.
\<close>

definition byte :: "char \<Rightarrow> nat" where
  "byte c = of_char c"

definition dquote :: char where
  "dquote = CHR 0x22"

definition backslash :: char where
  "backslash = CHR 0x5C"

definition hasPrefix :: "string \<Rightarrow> string \<Rightarrow> bool" where
  "hasPrefix s p = (take (length p) s = p)"

definition hasSuffix :: "string \<Rightarrow> string \<Rightarrow> bool" where
  "hasSuffix s p = (length p \<le> length s \<and> drop (length s - length p) s = p)"

text \<open>\<^verbatim>\<open>strings.Contains\<close>.\<close>

fun contains :: "string \<Rightarrow> string \<Rightarrow> bool" where
  "contains [] sub = (sub = [])"
| "contains (c # cs) sub = (hasPrefix (c # cs) sub \<or> contains cs sub)"

text \<open>
  \<^verbatim>\<open>strings.ToLower\<close> on the ASCII letters. On other runes Go applies
  \<^verbatim>\<open>unicode.ToLower\<close>, which yields an ASCII letter only for U+212A (k) and
  U+0130 (i); neither letter occurs in a substring the program searches for, so
  the searches of \<^verbatim>\<open>isFakeUA\<close> give the same answer on this model.
\<close>

definition toLower_byte :: "char \<Rightarrow> char" where
  "toLower_byte c = (if 65 \<le> byte c \<and> byte c \<le> 90 then char_of (byte c + 32) else c)"

definition toLower :: "string \<Rightarrow> string" where
  "toLower s = map toLower_byte s"

text \<open>
  \<^verbatim>\<open>strings.TrimSpace\<close> removes leading and trailing runes with
  \<^verbatim>\<open>unicode.IsSpace\<close>: the six ASCII space bytes and the UTF-8 encodings of
  U+0085, U+00A0, U+1680, U+2000..U+200A, U+2028, U+2029, U+202F, U+205F, U+3000.
\<close>

definition space_encodings :: "string list" where
  "space_encodings =
     [[CHR 0x09], [CHR 0x0A], [CHR 0x0B], [CHR 0x0C], [CHR 0x0D], [CHR 0x20],
      [CHR 0xC2, CHR 0x85], [CHR 0xC2, CHR 0xA0], [CHR 0xE1, CHR 0x9A, CHR 0x80],
      [CHR 0xE2, CHR 0x80, CHR 0x80], [CHR 0xE2, CHR 0x80, CHR 0x81],
      [CHR 0xE2, CHR 0x80, CHR 0x82], [CHR 0xE2, CHR 0x80, CHR 0x83],
      [CHR 0xE2, CHR 0x80, CHR 0x84], [CHR 0xE2, CHR 0x80, CHR 0x85],
      [CHR 0xE2, CHR 0x80, CHR 0x86], [CHR 0xE2, CHR 0x80, CHR 0x87],
      [CHR 0xE2, CHR 0x80, CHR 0x88], [CHR 0xE2, CHR 0x80, CHR 0x89],
      [CHR 0xE2, CHR 0x80, CHR 0x8A], [CHR 0xE2, CHR 0x80, CHR 0xA8],
      [CHR 0xE2, CHR 0x80, CHR 0xA9], [CHR 0xE2, CHR 0x80, CHR 0xAF],
      [CHR 0xE2, CHR 0x81, CHR 0x9F], [CHR 0xE3, CHR 0x80, CHR 0x80]]"

definition leading_space :: "string \<Rightarrow> nat" where
  "leading_space s = (case filter (hasPrefix s) space_encodings of [] \<Rightarrow> 0 | e # _ \<Rightarrow> length e)"

definition trailing_space :: "string \<Rightarrow> nat" where
  "trailing_space s = (case filter (hasSuffix s) space_encodings of [] \<Rightarrow> 0 | e # _ \<Rightarrow> length e)"

fun trimLeft :: "string \<Rightarrow> string" where
  "trimLeft [] = []"
| "trimLeft (c # cs) =
     (if leading_space (c # cs) = 0 then c # cs
      else trimLeft (drop (leading_space (c # cs) - 1) cs))"

function trimRight :: "string \<Rightarrow> string" where
  "trimRight s =
     (if trailing_space s = 0 then s else trimRight (take (length s - trailing_space s) s))"
  by pat_completeness auto
termination
proof (relation "measure length")
  show "wf (measure length)"
    by simp
next
  fix s :: string
  assume "trailing_space s \<noteq> 0"
  then have "s \<noteq> []"
    by (auto simp: trailing_space_def hasSuffix_def space_encodings_def)
  with \<open>trailing_space s \<noteq> 0\<close>
  show "(take (length s - trailing_space s) s, s) \<in> measure length"
    by (cases s) auto
qed

definition trimSpace :: "string \<Rightarrow> string" where
  "trimSpace s = trimRight (trimLeft s)"

text \<open>\<^verbatim>\<open>strings.ReplaceAll\<close> of one byte by a string.\<close>

definition replaceAll_byte :: "string \<Rightarrow> char \<Rightarrow> string \<Rightarrow> string" where
  "replaceAll_byte s old new = concat (map (\<lambda>c. if c = old then new else [c]) s)"

text \<open>
  \<^verbatim>\<open>utf8.DecodeRuneInString\<close>, as far as the callers need it: the number of bytes
  of the well-formed UTF-8 encoding of a non-ASCII rune at the start of the string,
  and \<open>0\<close> where Go decodes \<^verbatim>\<open>RuneError\<close> of width 1.
\<close>

definition utf8_cont :: "nat \<Rightarrow> bool" where
  "utf8_cont b = (128 \<le> b \<and> b \<le> 191)"

definition utf8_size :: "string \<Rightarrow> nat" where
  "utf8_size s =
     (case map byte (take 4 s) of
        [] \<Rightarrow> 0
      | b0 # bs \<Rightarrow>
          if 194 \<le> b0 \<and> b0 \<le> 223 then
            (case bs of b1 # _ \<Rightarrow> if utf8_cont b1 then 2 else 0 | _ \<Rightarrow> 0)
          else if 224 \<le> b0 \<and> b0 \<le> 239 then
            (case bs of
               b1 # b2 # _ \<Rightarrow>
                 if (if b0 = 224 then 160 else 128) \<le> b1 \<and> b1 \<le> (if b0 = 237 then 159 else 191)
                    \<and> utf8_cont b2
                 then 3 else 0
             | _ \<Rightarrow> 0)
          else if 240 \<le> b0 \<and> b0 \<le> 244 then
            (case bs of
               b1 # b2 # b3 # _ \<Rightarrow>
                 if (if b0 = 240 then 144 else 128) \<le> b1 \<and> b1 \<le> (if b0 = 244 then 143 else 191)
                    \<and> utf8_cont b2 \<and> utf8_cont b3
                 then 4 else 0
             | _ \<Rightarrow> 0)
          else 0)"

section \<open>JSON values and encoding/json\<close>

text \<open>
  A payload field is an \<^verbatim>\<open>interface{}\<close> produced by \<^verbatim>\<open>json.Decoder\<close>: nil,
  a bool, a float64, a string, a slice or a map with string keys. The type \<open>'f\<close>
  stands for float64. A map is an association list whose keys are distinct.
\<close>

datatype 'f json =
    JNull
  | JBool bool
  | JNumber 'f
  | JString string
  | JArray "'f json list"
  | JObject "(string \<times> 'f json) list"

definition hex :: "nat \<Rightarrow> char" where
  "hex n = ''0123456789abcdef'' ! (n mod 16)"

definition htmlSafe :: "char \<Rightarrow> bool" where
  "htmlSafe c =
     (32 \<le> byte c \<and> c \<noteq> dquote \<and> c \<noteq> backslash
      \<and> c \<noteq> CHR ''<'' \<and> c \<noteq> CHR ''>'' \<and> c \<noteq> CHR ''&'')"

text \<open>
  The body of \<^verbatim>\<open>appendString\<close> of encoding/json with \<^verbatim>\<open>escapeHTML\<close> set, as
  \<^verbatim>\<open>json.Marshal\<close> calls it, without the enclosing quotes (as of Go 1.22, which writes
  backspace and form feed as \<^verbatim>\<open>\b\<close> and \<^verbatim>\<open>\f\<close>).
\<close>

fun appendString :: "string \<Rightarrow> string" where
  "appendString [] = []"
| "appendString (c # cs) =
     (if byte c < 128 then
        (if htmlSafe c then [c]
         else if c = backslash \<or> c = dquote then [backslash, c]
         else if byte c = 8 then [backslash, CHR ''b'']
         else if byte c = 12 then [backslash, CHR ''f'']
         else if byte c = 10 then [backslash, CHR ''n'']
         else if byte c = 13 then [backslash, CHR ''r'']
         else if byte c = 9 then [backslash, CHR ''t'']
         else backslash # ''u00'' @ [hex (byte c div 16), hex (byte c mod 16)])
        @ appendString cs
      else if utf8_size (c # cs) = 0 then (backslash # ''ufffd'') @ appendString cs
      else if take 3 (c # cs) = [CHR 0xE2, CHR 0x80, CHR 0xA8]
        then (backslash # ''u2028'') @ appendString (drop 2 cs)
      else if take 3 (c # cs) = [CHR 0xE2, CHR 0x80, CHR 0xA9]
        then (backslash # ''u2029'') @ appendString (drop 2 cs)
      else take (utf8_size (c # cs)) (c # cs) @ appendString (drop (utf8_size (c # cs) - 1) cs))"

definition quoted :: "string \<Rightarrow> string" where
  "quoted s = dquote # appendString s @ [dquote]"

fun sequence_opt :: "'a option list \<Rightarrow> 'a list option" where
  "sequence_opt [] = Some []"
| "sequence_opt (x # xs) =
     (case x of
        None \<Rightarrow> None
      | Some y \<Rightarrow> (case sequence_opt xs of None \<Rightarrow> None | Some ys \<Rightarrow> Some (y # ys)))"

fun intercalate :: "string \<Rightarrow> string list \<Rightarrow> string" where
  "intercalate sep [] = []"
| "intercalate sep [x] = x"
| "intercalate sep (x # y # ys) = x @ sep @ intercalate sep (y # ys)"

definition appendNewline :: "nat \<Rightarrow> string" where
  "appendNewline depth = CHR 0x0A # concat (replicate depth ''  '')"

text \<open>
  \<^verbatim>\<open>json.MarshalIndent(v, "", "  ")\<close> at nesting depth \<open>d\<close>: map keys sorted,
  an empty slice or map on one line, every element on a line of its own otherwise.
  The encoder fails on a float64 that is NaN or infinite; \<open>ff\<close> formats a float64
  or fails.
\<close>

fun marshalIndent :: "('f \<Rightarrow> string option) \<Rightarrow> nat \<Rightarrow> 'f json \<Rightarrow> string option" where
  "marshalIndent ff d JNull = Some ''null''"
| "marshalIndent ff d (JBool b) = Some (if b then ''true'' else ''false'')"
| "marshalIndent ff d (JNumber x) = ff x"
| "marshalIndent ff d (JString s) = Some (quoted s)"
| "marshalIndent ff d (JArray vs) =
     (if vs = [] then Some ''[]''
      else case sequence_opt (map (marshalIndent ff (Suc d)) vs) of
          None \<Rightarrow> None
        | Some ss \<Rightarrow>
            Some (''['' @ appendNewline (Suc d)
                  @ intercalate ('','' @ appendNewline (Suc d)) ss
                  @ appendNewline d @ '']''))"
| "marshalIndent ff d (JObject kvs) =
     (if kvs = [] then Some ''{}''
      else case sequence_opt
                  (map (\<lambda>(k, v). map_option (\<lambda>s. quoted k @ '': '' @ s) (marshalIndent ff (Suc d) v))
                     (sort_key fst kvs)) of
          None \<Rightarrow> None
        | Some ss \<Rightarrow>
            Some (''{'' @ appendNewline (Suc d)
                  @ intercalate ('','' @ appendNewline (Suc d)) ss
                  @ appendNewline d @ ''}''))"

section \<open>Sanitizer and mail body (package mail)\<close>

text \<open>
  The three package-level regular expressions, each with the replacement the program
  applies. \<^verbatim>\<open>ReplaceAllString\<close> replaces the successive leftmost matches.

  \<^verbatim>\<open>reHTML = <[^>]*>\<close>, replaced by the empty string: a match starts at a
  \<^verbatim>\<open><\<close> that has a \<^verbatim>\<open>>\<close> somewhere after it and ends at the first such \<^verbatim>\<open>>\<close>.
\<close>

function reHTML_ReplaceAll :: "string \<Rightarrow> string" where
  "reHTML_ReplaceAll [] = []"
| "reHTML_ReplaceAll (c # cs) =
     (if c = CHR ''<'' \<and> CHR ''>'' \<in> set cs
      then reHTML_ReplaceAll (tl (dropWhile (\<lambda>x. x \<noteq> CHR ''>'') cs))
      else c # reHTML_ReplaceAll cs)"
  by pat_completeness auto
termination
proof (relation "measure length")
  show "wf (measure length)"
    by simp
next
  fix c :: char and cs :: string
  have "length (tl (dropWhile (\<lambda>x. x \<noteq> CHR ''>'') cs)) \<le> length cs"
    using length_dropWhile_le [of "\<lambda>x. x \<noteq> CHR ''>''" cs] by simp
  then show "(tl (dropWhile (\<lambda>x. x \<noteq> CHR ''>'') cs), c # cs) \<in> measure length"
    by simp
next
  fix c :: char and cs :: string
  show "(cs, c # cs) \<in> measure length"
    by simp
qed

text \<open>
  \<^verbatim>\<open>reURL = https?://\S+\<close>, replaced by the empty string. \<^verbatim>\<open>\S\<close> is any rune
  but tab, newline, form feed, carriage return and space.
\<close>

definition nonSpace :: "char \<Rightarrow> bool" where
  "nonSpace c = (c \<notin> set [CHR 0x09, CHR 0x0A, CHR 0x0C, CHR 0x0D, CHR 0x20])"

definition scheme_len :: "string \<Rightarrow> nat" where
  "scheme_len s =
     (if hasPrefix s ''https://'' then 8 else if hasPrefix s ''http://'' then 7 else 0)"

function reURL_ReplaceAll :: "string \<Rightarrow> string" where
  "reURL_ReplaceAll [] = []"
| "reURL_ReplaceAll (c # cs) =
     (case drop (scheme_len (c # cs)) (c # cs) of
        [] \<Rightarrow> c # reURL_ReplaceAll cs
      | x # rest \<Rightarrow>
          if 0 < scheme_len (c # cs) \<and> nonSpace x
          then reURL_ReplaceAll (dropWhile nonSpace rest)
          else c # reURL_ReplaceAll cs)"
  by pat_completeness auto
termination
proof (relation "measure length")
  show "wf (measure length)"
    by simp
next
  fix c :: char and cs :: string
  show "(cs, c # cs) \<in> measure length"
    by simp
next
  fix c x :: char and cs rest :: string
  assume d: "drop (scheme_len (c # cs)) (c # cs) = x # rest"
  have "length (dropWhile nonSpace rest) \<le> length rest"
    by (rule length_dropWhile_le)
  moreover have "length (x # rest) \<le> length (c # cs)"
    unfolding d [symmetric] by simp
  ultimately show "(dropWhile nonSpace rest, c # cs) \<in> measure length"
    by simp
next
  fix c :: char and cs :: string
  show "(cs, c # cs) \<in> measure length"
    by simp
qed

text \<open>\<^verbatim>\<open>reCtrl = [\x00-\x09\x0B\x0C\x0E-\x1F]\<close>, replaced by one space.\<close>

definition isCtrl :: "char \<Rightarrow> bool" where
  "isCtrl c = (byte c \<le> 9 \<or> byte c = 11 \<or> byte c = 12 \<or> (14 \<le> byte c \<and> byte c \<le> 31))"

definition reCtrl_ReplaceAll :: "string \<Rightarrow> string" where
  "reCtrl_ReplaceAll s = map (\<lambda>c. if isCtrl c then CHR '' '' else c) s"

text \<open>
  The statements of the loop body of \<^verbatim>\<open>formatPayloadAsTable\<close> that compute
  \<^verbatim>\<open>vstr\<close> for one value: pretty-print as JSON, fall back to \<^verbatim>\<open>fmt.Sprintf("%v", v)\<close>
  if marshalling fails, then the three replacements and the trim. \<open>ff\<close> formats a
  float64 and \<open>sprintfV\<close> is \<^verbatim>\<open>fmt.Sprintf("%v", v)\<close>.
\<close>

definition sanitizeValue ::
  "('f \<Rightarrow> string option) \<Rightarrow> ('f json \<Rightarrow> string) \<Rightarrow> 'f json \<Rightarrow> string" where
  "sanitizeValue ff sprintfV v =
     (let vstr = (case marshalIndent ff 0 v of None \<Rightarrow> sprintfV v | Some j \<Rightarrow> j);
          vstr = reHTML_ReplaceAll vstr;
          vstr = reURL_ReplaceAll vstr;
          vstr = reCtrl_ReplaceAll vstr;
          vstr = trimSpace vstr
      in vstr)"

definition escapeKey :: "string \<Rightarrow> string" where
  "escapeKey k = replaceAll_byte (replaceAll_byte k (CHR ''<'') ''&lt;'') (CHR ''>'') ''&gt;''"

text \<open>The raw string literals of \<^verbatim>\<open>formatPayloadAsTable\<close>; \<^verbatim>\<open>\n\<close> in them is two bytes.\<close>

definition table_head :: string where
  \<open>table_head =
     ''<html>'' @ [CHR 0x0A, CHR 0x09] @ ''<h1>New Submission</h1>'' @ [CHR 0x0A, CHR 0x0A]
     @ ''  <table width="600" style="border:1px solid #333">'' @ [CHR 0x0A]
     @ ''    <thead>'' @ [CHR 0x0A, CHR 0x09, CHR 0x09]
     @ ''  <tr><th align="left">Field</th><th align="left">Value</th></tr>''
     @ [CHR 0x0A, CHR 0x09, CHR 0x09] @ ''</thead>'' @ [CHR 0x0A]
     @ ''   <tbody>'' @ [backslash, CHR ''n'']\<close>

definition table_row :: "string \<Rightarrow> string \<Rightarrow> string" where
  "table_row escapedKey vstr =
     ''<tr>'' @ [CHR 0x0A, CHR 0x09, CHR 0x09] @ ''  <td><code>'' @ escapedKey @ ''</code></td>''
     @ [CHR 0x0A, CHR 0x09, CHR 0x09, CHR 0x09] @ ''<td><pre>'' @ vstr @ ''</pre></td>''
     @ [CHR 0x0A, CHR 0x09, CHR 0x09] @ ''</tr>'' @ [backslash, CHR ''n'']"

definition table_foot :: string where
  "table_foot =
     ''</tbody>'' @ [CHR 0x0A, CHR 0x09] @ ''  </table>'' @ [CHR 0x0A, CHR 0x09]
     @ ''</html>'' @ [backslash, CHR ''n'']"

definition formatPayloadAsTable ::
  "('f \<Rightarrow> string option) \<Rightarrow> ('f json \<Rightarrow> string) \<Rightarrow> (string \<times> 'f json) list \<Rightarrow> string" where
  "formatPayloadAsTable ff sprintfV payload =
     (let keys = sort (map fst payload) in
      table_head
      @ concat (map (\<lambda>k.
            let v = (case map_of payload k of None \<Rightarrow> JNull | Some v \<Rightarrow> v)
            in table_row (escapeKey k) (sanitizeValue ff sprintfV v)) keys)
      @ table_foot)"

definition buildEmailBody ::
  "('f \<Rightarrow> string option) \<Rightarrow> ('f json \<Rightarrow> string) \<Rightarrow> (string \<times> 'f json) list \<Rightarrow> string" where
  "buildEmailBody ff sprintfV payload = formatPayloadAsTable ff sprintfV payload"

section \<open>The world outside the handler\<close>

text \<open>
  What a request's handling leaves behind: the rate-limit table, the operator log,
  the HTTP POSTs issued to the verification endpoint (URL, content type, body) and
  the messages handed to the SMTP transport.
\<close>

datatype log_entry =
    Refused string string string
  | Warnf string

record world =
  rl :: rlimap
  logs :: "log_entry list"
  posts :: "(string \<times> string \<times> string) list"
  mails :: "string list"

text \<open>
  An \<^verbatim>\<open>error\<close> is its message; \<^verbatim>\<open>nil\<close> is \<open>None\<close>. The answer of \<^verbatim>\<open>http.Post\<close>
  is a transport error or a response with its status code, its status text and
  its body, where reading the body may fail.
\<close>

type_synonym error = "string option"

datatype post_result =
    PostError string
  | PostResponse int string "string + string"

text \<open>
  The result of \<^verbatim>\<open>dec.Decode(&body)\<close> on the size-capped request body: an error
  other than \<^verbatim>\<open>io.EOF\<close>, \<^verbatim>\<open>io.EOF\<close> (nothing was decoded and \<^verbatim>\<open>body\<close> keeps its zero
  value), or the decoded token and payload.
\<close>

datatype 'f decode_result =
    DecodeError string
  | DecodeEOF
  | Decoded string "(string \<times> 'f json) list"

text \<open>
  The library and network behaviour the handler depends on and the repository does
  not define: \<^verbatim>\<open>net.SplitHostPort\<close>; \<^verbatim>\<open>json.Decoder\<close> on the request body read
  through \<^verbatim>\<open>http.MaxBytesReader\<close> with the given cap; \<^verbatim>\<open>http.Post\<close>;
  \<^verbatim>\<open>json.Decoder\<close> on the verification response; the formatting of a float64 and
  \<^verbatim>\<open>fmt.Sprintf("%v", v)\<close>; and the SMTP session of \<^verbatim>\<open>SendMail\<close>.
\<close>

record 'f env =
  splitHostPort :: "string \<Rightarrow> string option"
  decodeBody :: "int \<Rightarrow> string \<Rightarrow> 'f decode_result"
  httpPost :: "string \<Rightarrow> string \<Rightarrow> string \<Rightarrow> post_result"
  decodeSuccess :: "string \<Rightarrow> string + bool"
  fmtFloat :: "'f \<Rightarrow> string option"
  sprintfV :: "'f json \<Rightarrow> string"
  smtpSession :: "SMTPConfig \<Rightarrow> string \<Rightarrow> error"

section \<open>Verifier (package turnstile)\<close>

text \<open>
  \<^verbatim>\<open>json.Marshal\<close> of the \<^verbatim>\<open>TurnstileRequest\<close> struct; it cannot fail on three strings.
\<close>

definition marshalTurnstileRequest :: "string \<Rightarrow> string \<Rightarrow> string \<Rightarrow> string" where
  \<open>marshalTurnstileRequest secret response remoteip =
     ''{"secret":'' @ quoted secret @ '',"response":'' @ quoted response
     @ '',"remoteip":'' @ quoted remoteip @ ''}''\<close>

text \<open>The definition of \<^verbatim>\<open>VerifyTurnstile\<close> that posts JSON and checks the status.\<close>

definition VerifyTurnstile ::
  "'f env \<Rightarrow> CFTurnConfig \<Rightarrow> string \<Rightarrow> string \<Rightarrow> world \<Rightarrow> (bool \<times> error) \<times> world" where
  "VerifyTurnstile e cfg token ip w =
     (if Secret cfg = [] \<or> Endpoint cfg = [] then ((False, Some ''turnstile not configured''), w)
      else
        let jsonData = marshalTurnstileRequest (Secret cfg) token ip;
            w' = w\<lparr>posts := posts w @ [(Endpoint cfg, ''application/json'', jsonData)]\<rparr>
        in case httpPost e (Endpoint cfg) ''application/json'' jsonData of
             PostError err \<Rightarrow> ((False, Some err), w')
           | PostResponse code status body \<Rightarrow>
               if code > 299 then
                 (case body of
                    Inl _ \<Rightarrow>
                      ((False, Some (''turnstile verification failed with status: '' @ status
                                     @ '' (cannot read body)'')), w')
                  | Inr bodyBytes \<Rightarrow>
                      ((False, Some (''turnstile verification failed with status: '' @ status
                                     @ '' Error Body: `'' @ bodyBytes @ ''`'')), w'))
               else
                 (case body of
                    Inl err \<Rightarrow> ((False, Some err), w')
                  | Inr bodyBytes \<Rightarrow>
                      (case decodeSuccess e bodyBytes of
                         Inl err \<Rightarrow> ((False, Some err), w')
                       | Inr success \<Rightarrow> ((success, None), w'))))"

text \<open>\<^verbatim>\<open>url.QueryEscape\<close>.\<close>

definition upperhex :: "nat \<Rightarrow> char" where
  "upperhex n = ''0123456789ABCDEF'' ! (n mod 16)"

definition unreserved :: "char \<Rightarrow> bool" where
  "unreserved c =
     ((97 \<le> byte c \<and> byte c \<le> 122) \<or> (65 \<le> byte c \<and> byte c \<le> 90)
      \<or> (48 \<le> byte c \<and> byte c \<le> 57) \<or> c \<in> set ''-_.~'')"

definition queryEscape :: "string \<Rightarrow> string" where
  "queryEscape s =
     concat (map (\<lambda>c. if unreserved c then [c]
                       else if c = CHR '' '' then ''+''
                       else [CHR ''%'', upperhex (byte c div 16), upperhex (byte c mod 16)]) s)"

text \<open>
  The other definition of \<^verbatim>\<open>VerifyTurnstile\<close> in the package's sources, which posts a
  form and decodes the response whatever its status.
\<close>

definition VerifyTurnstile_form ::
  "'f env \<Rightarrow> CFTurnConfig \<Rightarrow> string \<Rightarrow> string \<Rightarrow> world \<Rightarrow> (bool \<times> error) \<times> world" where
  "VerifyTurnstile_form e cfg token ip w =
     (if Secret cfg = [] \<or> Endpoint cfg = [] then ((False, Some ''turnstile not configured''), w)
      else
        let data = ''secret='' @ Secret cfg @ ''&response='' @ token @ ''&remoteip='' @ ip;
            data = queryEscape data;
            w' = w\<lparr>posts := posts w
                   @ [(Endpoint cfg, ''application/x-www-form-urlencoded'', data)]\<rparr>
        in case httpPost e (Endpoint cfg) ''application/x-www-form-urlencoded'' data of
             PostError err \<Rightarrow> ((False, Some err), w')
           | PostResponse code status body \<Rightarrow>
               (case body of
                  Inl err \<Rightarrow> ((False, Some err), w')
                | Inr bodyBytes \<Rightarrow>
                    (case decodeSuccess e bodyBytes of
                       Inl err \<Rightarrow> ((False, Some err), w')
                     | Inr success \<Rightarrow> ((success, None), w'))))"

section \<open>Mailer (package mail, SendMail)\<close>

text \<open>
  \<^verbatim>\<open>SendMail\<close> builds the message and runs one SMTP session in the configured
  mode; the session is the environment's.
\<close>

definition SendMail ::
  "'f env \<Rightarrow> SMTPConfig \<Rightarrow> string \<Rightarrow> (string \<times> 'f json) list \<Rightarrow> world \<Rightarrow> error \<times> world" where
  "SendMail e cfg subject payload w =
     (let body = buildEmailBody (fmtFloat e) (sprintfV e) payload;
          msg = ''From: '' @ From cfg @ [CHR 0x0D, CHR 0x0A]
                @ ''To: '' @ To cfg @ [CHR 0x0D, CHR 0x0A]
                @ ''Subject: '' @ subject @ [CHR 0x0D, CHR 0x0A]
                @ ''MIME-Version: 1.0'' @ [CHR 0x0D, CHR 0x0A]
                @ ''Content-Type: text/html; charset=UTF-8'' @ [CHR 0x0D, CHR 0x0A]
                @ [CHR 0x0D, CHR 0x0A] @ body
      in (smtpSession e cfg msg, w\<lparr>mails := mails w @ [msg]\<rparr>))"

section \<open>Submission pipeline (main.go)\<close>

text \<open>
  The fields of \<^verbatim>\<open>http.Request\<close> that the handlers read. A header that is absent
  reads as the empty string; \<^verbatim>\<open>ContentLength\<close> is \<open>-1\<close> when the length is unknown.
\<close>

record request =
  Method :: string
  UserAgent :: string
  XForwardedFor :: string
  RemoteAddr :: string
  ContentLength :: int
  Path :: string
  Body :: string

text \<open>
  What the client gets: a status code and a body, or nothing when the handler
  panics (net/http recovers the panic and closes the connection).
  \<^verbatim>\<open>http.Error\<close> writes the message and a newline.
\<close>

datatype outcome =
    Response nat string
  | Panic string

definition httpError :: "string \<Rightarrow> nat \<Rightarrow> outcome" where
  "httpError msg code = Response code (msg @ [CHR 0x0A])"

definition StatusNoContent :: nat where "StatusNoContent = 204"
definition StatusBadRequest :: nat where "StatusBadRequest = 400"
definition StatusNotFound :: nat where "StatusNotFound = 404"
definition StatusTooManyRequests :: nat where "StatusTooManyRequests = 429"
definition StatusInternalServerError :: nat where "StatusInternalServerError = 500"

definition isFakeUA :: "OptionsConfig \<Rightarrow> string \<Rightarrow> bool" where
  "isFakeUA opts ua =
     (if \<not> BlockBotUserAgents opts then False
      else let l = toLower ua in
        if contains l ''curl/'' \<or> contains l ''python-requests'' \<or> contains l ''bot''
        then True else False)"

definition clientIP :: "'f env \<Rightarrow> request \<Rightarrow> string" where
  "clientIP e r =
     (if XForwardedFor r \<noteq> [] then trimSpace (takeWhile (\<lambda>c. c \<noteq> CHR '','') (XForwardedFor r))
      else case splitHostPort e (RemoteAddr r) of
          None \<Rightarrow> RemoteAddr r
        | Some host \<Rightarrow> host)"

definition warnRefuse :: "'f env \<Rightarrow> request \<Rightarrow> string \<Rightarrow> world \<Rightarrow> world" where
  "warnRefuse e r reason w = w\<lparr>logs := logs w @ [Refused (clientIP e r) (Path r) reason]\<rparr>"

text \<open>
  \<^verbatim>\<open>ctaHandler\<close>. \<open>verify\<close> is the \<^verbatim>\<open>turnstile.VerifyTurnstile\<close> the program is built
  with and \<open>now\<close> the clock reading \<^verbatim>\<open>allowRate\<close> takes. In the branch taken when
  verification fails, \<^verbatim>\<open>err.Error()\<close> is evaluated to build the log message before
  anything is written: with a nil \<^verbatim>\<open>err\<close> that is a nil dereference.
\<close>

definition ctaHandler ::
  "'f env \<Rightarrow> (CFTurnConfig \<Rightarrow> string \<Rightarrow> string \<Rightarrow> world \<Rightarrow> (bool \<times> error) \<times> world)
   \<Rightarrow> Config \<Rightarrow> time \<Rightarrow> request \<Rightarrow> world \<Rightarrow> outcome \<times> world" where
  "ctaHandler e verify cfg now r w =
     (if Method r \<noteq> ''POST'' then (httpError ''not found'' StatusNotFound, w)
      else
        let ua = UserAgent r in
        if ua = [] \<or> isFakeUA (Options cfg) ua then
          (httpError ''invalid request'' StatusBadRequest, warnRefuse e r ''fake user agent'' w)
        else
          let ip = clientIP e r;
              (allowed, rl') = allowRate (Options cfg) now ip (rl w);
              w1 = w\<lparr>rl := rl'\<rparr>
          in
          if \<not> allowed then
            (httpError ''invalid request'' StatusTooManyRequests, warnRefuse e r ''rate limit'' w1)
          else
            case decodeBody e (MaxBodySize (Options cfg)) (Body r) of
              DecodeError err \<Rightarrow>
                (httpError ''invalid request'' StatusBadRequest,
                 warnRefuse e r (''bad json: %v'' @ err) w1)
            | DecodeEOF \<Rightarrow>
                (httpError ''invalid request'' StatusBadRequest, warnRefuse e r ''missing token'' w1)
            | Decoded token payload \<Rightarrow>
                if token = [] then
                  (httpError ''invalid request'' StatusBadRequest,
                   warnRefuse e r ''missing token'' w1)
                else
                  let ((ok, err), w2) = verify (CFTurn cfg) token ip w1 in
                  if err \<noteq> None \<or> \<not> ok then
                    (case err of
                       None \<Rightarrow> (Panic ''invalid memory address or nil pointer dereference'', w2)
                     | Some msg \<Rightarrow>
                         (httpError ''invalid request'' StatusBadRequest,
                          warnRefuse e r (''turnstile failed: '' @ msg) w2))
                  else
                    let (merr, w3) = SendMail e (SMTP cfg) ''New CTA Submission'' payload w2 in
                    (case merr of
                       Some msg \<Rightarrow>
                         (httpError ''invalid request'' StatusInternalServerError,
                          w3\<lparr>logs := logs w3 @ [Warnf (''send mail failed: '' @ msg)]\<rparr>)
                     | None \<Rightarrow> (Response StatusNoContent [], w3)))"

text \<open>
  \<^verbatim>\<open>limitMiddleware\<close> wraps the whole mux, so it runs before \<^verbatim>\<open>ctaHandler\<close>.
\<close>

definition limitMiddleware ::
  "'f env \<Rightarrow> Config \<Rightarrow> (request \<Rightarrow> world \<Rightarrow> outcome \<times> world)
   \<Rightarrow> request \<Rightarrow> world \<Rightarrow> outcome \<times> world" where
  "limitMiddleware e cfg next r w =
     (if MaxBodySize (Options cfg) \<ge> 0 \<and> ContentLength r > MaxBodySize (Options cfg)
         \<and> ContentLength r \<noteq> - 1
      then (httpError ''invalid request'' StatusBadRequest,
            warnRefuse e r ''content-length too large'' w)
      else next r w)"

text \<open>
  The server's handler for a request that the mux routes to the submission
  endpoint: \<^verbatim>\<open>limitMiddleware(mux)\<close> with \<^verbatim>\<open>ctaHandler\<close> registered on the endpoint.
\<close>

definition serve ::
  "'f env \<Rightarrow> (CFTurnConfig \<Rightarrow> string \<Rightarrow> string \<Rightarrow> world \<Rightarrow> (bool \<times> error) \<times> world)
   \<Rightarrow> Config \<Rightarrow> time \<Rightarrow> request \<Rightarrow> world \<Rightarrow> outcome \<times> world" where
  "serve e verify cfg now r w = limitMiddleware e cfg (ctaHandler e verify cfg now) r w"

section \<open>Notions used to state the properties\<close>

text \<open>The timestamps of an identity that an admission check at \<open>now\<close> keeps.\<close>

definition live :: "time \<Rightarrow> rlimap \<Rightarrow> string \<Rightarrow> time list" where
  "live now m ip =
     (case m ip of None \<Rightarrow> [] | Some t \<Rightarrow> filter (\<lambda>ts. time_sub now ts \<le> window) t)"

text \<open>Every stored list of timestamps is in nondecreasing order and holds no reading after \<open>n\<close>.\<close>

definition stamps_upto :: "time \<Rightarrow> rlimap \<Rightarrow> bool" where
  "stamps_upto n m = (\<forall>ip t. m ip = Some t \<longrightarrow> sorted t \<and> (\<forall>ts \<in> set t. ts \<le> n))"

text \<open>The guards of the pipeline, and the world after the admission check.\<close>

definition contentLengthTooLarge :: "Config \<Rightarrow> request \<Rightarrow> bool" where
  "contentLengthTooLarge cfg r =
     (MaxBodySize (Options cfg) \<ge> 0 \<and> ContentLength r > MaxBodySize (Options cfg)
      \<and> ContentLength r \<noteq> - 1)"

definition uaRejected :: "Config \<Rightarrow> request \<Rightarrow> bool" where
  "uaRejected cfg r = (UserAgent r = [] \<or> isFakeUA (Options cfg) (UserAgent r))"

definition rateAllowed :: "'f env \<Rightarrow> Config \<Rightarrow> time \<Rightarrow> request \<Rightarrow> world \<Rightarrow> bool" where
  "rateAllowed e cfg now r w = fst (allowRate (Options cfg) now (clientIP e r) (rl w))"

definition afterRate :: "'f env \<Rightarrow> Config \<Rightarrow> time \<Rightarrow> request \<Rightarrow> world \<Rightarrow> world" where
  "afterRate e cfg now r w = w\<lparr>rl := snd (allowRate (Options cfg) now (clientIP e r) (rl w))\<rparr>"

text \<open>The request passes the content-length check, the method check, the user-agent
  filter and the rate limiter, so that its body is decoded.\<close>

definition admitted :: "'f env \<Rightarrow> Config \<Rightarrow> time \<Rightarrow> request \<Rightarrow> world \<Rightarrow> bool" where
  "admitted e cfg now r w =
     (\<not> contentLengthTooLarge cfg r \<and> Method r = ''POST'' \<and> \<not> uaRejected cfg r
      \<and> rateAllowed e cfg now r w)"



section \<open>Concrete inputs\<close>

definition example_opts :: OptionsConfig where
  "example_opts =
     \<lparr>EnableRateLimiting = True, MaxBodySize = 4096, BlockBotUserAgents = True,
      CTAEndpoint = ''/-/cta''\<rparr>"

definition example_cfg :: Config where
  "example_cfg =
     \<lparr>CFTurn = \<lparr>Endpoint = ''https://challenges.cloudflare.com/turnstile/v0/siteverify'',
                Secret = ''0x4AAAAAAAAAAAAAAAAAAAAAAAAAAAAAAAA''\<rparr>,
      SMTP = \<lparr>Server = ''mail.example'', Port = 25, Encryption = ''plain'', Username = [],
              Password = [], VerifyTLS = True, From = ''john@example.com'',
              To = ''info@example.com''\<rparr>,
      Options = example_opts\<rparr>"

text \<open>
  An environment in which the request body is the README's sample, the verification
  endpoint answers with the given status and body, and the SMTP session succeeds.
\<close>

definition example_env :: "int \<Rightarrow> string \<Rightarrow> unit env" where
  \<open>example_env code answer =
     \<lparr>splitHostPort = (\<lambda>a. Some (takeWhile (\<lambda>c. c \<noteq> CHR '':'') a)),
      decodeBody = (\<lambda>cap b.
         if b = [] then DecodeEOF
         else if b = ''{"token":"turnstile-token","payload":{"name":"Alice"}}''
           then Decoded ''turnstile-token'' [(''name'', JString ''Alice'')]
         else if b = ''{"payload":{"name":"Alice"}}''
           then Decoded [] [(''name'', JString ''Alice'')]
         else DecodeError ''invalid character''),
      httpPost = (\<lambda>url ctype body. PostResponse code ''status'' (Inr answer)),
      decodeSuccess = (\<lambda>b.
         if b = ''{"success":true}'' then Inr True
         else if b = ''{"success":false}'' then Inr False
         else Inl ''invalid character''),
      fmtFloat = (\<lambda>x. None),
      sprintfV = (\<lambda>v. []),
      smtpSession = (\<lambda>c msg. None)\<rparr>\<close>

definition example_request :: request where
  \<open>example_request =
     \<lparr>Method = ''POST'', UserAgent = ''Mozilla/5.0'', XForwardedFor = [],
      RemoteAddr = ''203.0.113.7:51234'', ContentLength = 54, Path = ''/-/cta'',
      Body = ''{"token":"turnstile-token","payload":{"name":"Alice"}}''\<rparr>\<close>

definition example_world :: world where
  "example_world = \<lparr>rl = Map.empty, logs = [], posts = [], mails = []\<rparr>"

section \<open>Properties of the rate limiter\<close>

lemma prune_filter: "prune now t nt = nt @ filter (\<lambda>ts. time_sub now ts \<le> window) t"
  by (induction t arbitrary: nt) auto

lemma time_sub_mono: "a \<le> b \<Longrightarrow> time_sub a u \<le> time_sub b u"
  by (auto simp: time_sub_def Let_def maxDuration_def minDuration_def)

lemma time_sub_antimono: "u \<le> v \<Longrightarrow> time_sub t v \<le> time_sub t u"
  by (auto simp: time_sub_def Let_def maxDuration_def minDuration_def)

lemma time_sub_self: "time_sub t t = 0"
  by (simp add: time_sub_def maxDuration_def minDuration_def)

lemma time_sub_nonneg: "u \<le> t \<Longrightarrow> 0 \<le> time_sub t u"
  by (auto simp: time_sub_def Let_def maxDuration_def minDuration_def)

lemma allowRate_enabled:
  "EnableRateLimiting opts \<Longrightarrow>
   allowRate opts now ip m = (length (live now m ip) < limit, m(ip \<mapsto> live now m ip @ [now]))"
  by (auto simp: allowRate_def live_def prune_filter Let_def limit_def split: option.splits)

lemma allowRate_seq_within:
  assumes en: "EnableRateLimiting opts"
  shows "(\<forall>n \<in> set (now # nows). live n m ip = cur) \<Longrightarrow>
     sorted_wrt (\<lambda>a b. time_sub b a \<le> window) (now # nows) \<Longrightarrow>
     allowRate_seq opts ip (now # nows) m =
       (map (\<lambda>k. length cur + k < limit) [0..<Suc (length nows)], m(ip \<mapsto> cur @ now # nows))"
proof (induction nows arbitrary: now m cur)
  case Nil
  then show ?case by (simp add: allowRate_enabled [OF en] del: fun_upd_apply)
next
  case (Cons n ns)
  let ?m = "m(ip \<mapsto> cur @ [now])"
  have step: "allowRate opts now ip m = (length cur < limit, ?m)"
    using Cons.prems(1) by (simp add: allowRate_enabled [OF en])
  have keep: "\<forall>x \<in> set (n # ns). live x ?m ip = cur @ [now]"
  proof
    fix x assume x: "x \<in> set (n # ns)"
    have "live x m ip = cur" using Cons.prems(1) x by auto
    then have "\<forall>c \<in> set cur. time_sub x c \<le> window"
      by (auto simp: live_def split: option.splits)
    moreover have "time_sub x now \<le> window" using Cons.prems(2) x by auto
    ultimately show "live x ?m ip = cur @ [now]"
      by (simp add: live_def)
  qed
  have sw: "sorted_wrt (\<lambda>a b. time_sub b a \<le> window) (n # ns)" using Cons.prems(2) by simp
  have ih: "allowRate_seq opts ip (n # ns) ?m =
       (map (\<lambda>k. length (cur @ [now]) + k < limit) [0..<Suc (length ns)],
        ?m(ip \<mapsto> (cur @ [now]) @ n # ns))"
    by (rule Cons.IH [OF keep sw])
  have shift: "map (\<lambda>k. length cur + k < limit) [0..<Suc (length (n # ns))]
      = (length cur < limit) # map (\<lambda>k. length (cur @ [now]) + k < limit) [0..<Suc (length ns)]"
    by (simp add: upt_rec [of 0] map_Suc_upt [symmetric] del: upt_Suc)
  have "allowRate_seq opts ip (now # n # ns) m =
      ((length cur < limit) # fst (allowRate_seq opts ip (n # ns) ?m),
       snd (allowRate_seq opts ip (n # ns) ?m))"
    by (simp add: step split_beta del: fun_upd_apply)
  then show ?case
    unfolding shift ih by (simp del: fun_upd_apply)
qed

text \<open>
  C1. With rate limiting enabled, let an identity have no stored timestamp inside the
  window at the first of a series of admission checks whose clock readings are
  nondecreasing and span at most the window. Then the first five checks return true and
  every further one returns false (the sixth in particular), each check, admitted or
  rejected, leaves its own timestamp in the table, and a check made after more than the
  window has passed since the last of them returns true again.
\<close>

theorem allowRate_sliding_window:
  assumes "EnableRateLimiting opts"
    and "\<forall>t ts. m ip = Some t \<longrightarrow> ts \<in> set t \<longrightarrow> window < time_sub (hd nows) ts"
    and "nows \<noteq> []"
    and "sorted nows"
    and "time_sub (last nows) (hd nows) \<le> window"
    and "window < time_sub later (last nows)"
  shows "fst (allowRate_seq opts ip nows m) = map (\<lambda>k. k < 5) [0..<length nows]
    \<and> snd (allowRate_seq opts ip nows m) = m(ip \<mapsto> nows)
    \<and> allowRate opts later ip (snd (allowRate_seq opts ip nows m)) = (True, m(ip \<mapsto> [later]))"
proof -
  have hd_le: "\<forall>n \<in> set nows. hd nows \<le> n"
    using assms(3,4) by (cases nows) auto
  have le_last: "\<forall>n \<in> set nows. n \<le> last nows"
    using assms(3,4) by (induction nows) (auto simp: sorted_append)
  have clean: "\<forall>n \<in> set nows. live n m ip = []"
  proof
    fix n assume n: "n \<in> set nows"
    show "live n m ip = []"
    proof (cases "m ip")
      case None
      then show ?thesis by (simp add: live_def)
    next
      case (Some t)
      have "\<forall>ts \<in> set t. \<not> time_sub n ts \<le> window"
      proof
        fix ts assume "ts \<in> set t"
        then have "window < time_sub (hd nows) ts" using assms(2) Some by blast
        moreover have "time_sub (hd nows) ts \<le> time_sub n ts"
          using hd_le n by (intro time_sub_mono) blast
        ultimately show "\<not> time_sub n ts \<le> window" by linarith
      qed
      then show ?thesis using Some by (simp add: live_def)
    qed
  qed
  have pair: "time_sub b a \<le> window" if "a \<in> set nows" "b \<in> set nows" for a b
  proof -
    have "time_sub b a \<le> time_sub (last nows) a"
      using le_last that(2) by (intro time_sub_mono) blast
    also have "\<dots> \<le> time_sub (last nows) (hd nows)"
      using hd_le that(1) by (intro time_sub_antimono) blast
    finally show ?thesis using assms(5) by linarith
  qed
  have sw: "sorted_wrt (\<lambda>a b. time_sub b a \<le> window) nows"
    using pair by (simp add: sorted_wrt_iff_nth_less)
  have seq: "allowRate_seq opts ip nows m =
      (map (\<lambda>k. k < 5) [0..<length nows], m(ip \<mapsto> nows))"
  proof (cases nows)
    case Nil
    then show ?thesis using assms(3) by simp
  next
    case (Cons n ns)
    show ?thesis
      using allowRate_seq_within [OF assms(1), of n ns m ip "[]"] clean sw
      unfolding Cons by (simp add: limit_def del: allowRate_seq.simps upt_Suc)
  qed
  have gone: "live later (m(ip \<mapsto> nows)) ip = []"
  proof -
    have "\<not> time_sub later n \<le> window" if "n \<in> set nows" for n
    proof -
      have "time_sub later (last nows) \<le> time_sub later n"
        using le_last that by (intro time_sub_antimono) blast
      then show ?thesis using assms(6) by linarith
    qed
    then show ?thesis by (simp add: live_def)
  qed
  have "allowRate opts later ip (m(ip \<mapsto> nows)) = (True, m(ip \<mapsto> [later]))"
    by (simp add: allowRate_enabled [OF assms(1)] gone limit_def)
  then show ?thesis by (simp add: seq)
qed

theorem allowRate_sliding_window_witness:
  "fst (allowRate_seq example_opts
         ''10.0.0.1'' [0, 10, 20, 30, 40, 60000000000] [''10.0.0.1'' \<mapsto> [- 60000000001]])
     = [True, True, True, True, True, False]
   \<and> allowRate example_opts
         120000000001 ''10.0.0.1''
        (snd (allowRate_seq example_opts
         ''10.0.0.1'' [0, 10, 20, 30, 40, 60000000000] [''10.0.0.1'' \<mapsto> [- 60000000001]]))
     = (True, [''10.0.0.1'' \<mapsto> [120000000001]])"
proof -
  let ?opts = "example_opts"
  let ?m = "[''10.0.0.1'' \<mapsto> [- 60000000001 :: int]]"
  let ?nows = "[0, 10, 20, 30, 40, 60000000000 :: int]"
  have h1: "EnableRateLimiting ?opts" by (simp add: example_opts_def)
  have h2: "\<forall>t ts. ?m ''10.0.0.1'' = Some t \<longrightarrow> ts \<in> set t \<longrightarrow> window < time_sub (hd ?nows) ts"
    by (simp add: time_sub_def window_def maxDuration_def minDuration_def)
  have h3: "?nows \<noteq> []" by simp
  have h4: "sorted ?nows" by simp
  have h5: "time_sub (last ?nows) (hd ?nows) \<le> window"
    by (simp add: time_sub_def window_def maxDuration_def minDuration_def)
  have h6: "window < time_sub 120000000001 (last ?nows)"
    by (simp add: time_sub_def window_def maxDuration_def minDuration_def)
  have up: "map (\<lambda>k. k < (5::nat)) [0..<length ?nows] = [True, True, True, True, True, False]"
    by (simp add: upt_rec)
  show ?thesis
    using allowRate_sliding_window [of ?opts ?m "''10.0.0.1''" ?nows 120000000001, OF h1 h2 h3 h4 h5 h6]
    unfolding up fun_upd_upd by blast
qed


lemma stamps_upto_mono: "stamps_upto n m \<Longrightarrow> n \<le> n' \<Longrightarrow> stamps_upto n' m"
  unfolding stamps_upto_def by (meson order_trans)

lemma live_sorted: "stamps_upto n m \<Longrightarrow> sorted (live now m ip)"
proof (cases "m ip")
  case None
  then show ?thesis by (simp add: live_def)
next
  case (Some t)
  assume "stamps_upto n m"
  then have "sorted t" using Some unfolding stamps_upto_def by blast
  then show ?thesis using Some by (simp add: live_def sorted_wrt_filter)
qed

lemma live_le: "stamps_upto n m \<Longrightarrow> ts \<in> set (live now m ip) \<Longrightarrow> ts \<le> n"
proof (cases "m ip")
  case None
  assume "ts \<in> set (live now m ip)"
  then show ?thesis using None by (simp add: live_def)
next
  case (Some t)
  assume "stamps_upto n m" and "ts \<in> set (live now m ip)"
  then have "\<forall>x \<in> set t. x \<le> n" and "ts \<in> set t"
    using Some unfolding stamps_upto_def by (auto simp: live_def)
  then show ?thesis by blast
qed

lemma live_window: "ts \<in> set (live now m ip) \<Longrightarrow> time_sub now ts \<le> window"
  by (auto simp: live_def split: option.splits)

lemma allowRate_stamps_upto:
  assumes "EnableRateLimiting opts" "stamps_upto now m"
  shows "stamps_upto now (snd (allowRate opts now ip m))"
proof -
  have "sorted (live now m ip @ [now])"
    using live_sorted [OF assms(2)] live_le [OF assms(2)] by (auto simp: sorted_append)
  moreover have "\<forall>ts \<in> set (live now m ip @ [now]). ts \<le> now"
    using live_le [OF assms(2)] by auto
  ultimately show ?thesis
    using assms(2) unfolding allowRate_enabled [OF assms(1)] stamps_upto_def
    by (auto simp del: fun_upd_apply simp add: fun_upd_apply [of m ip])
qed

lemma allowRate_run_snoc:
  "allowRate_run opts (calls @ [(now, ip)]) m = snd (allowRate opts now ip (allowRate_run opts calls m))"
  by (induction calls arbitrary: m) auto

lemma allowRate_run_stamps_upto:
  assumes "EnableRateLimiting opts"
  shows "sorted (map fst calls) \<Longrightarrow> \<forall>c \<in> set calls. fst c \<le> n \<Longrightarrow>
    stamps_upto n (allowRate_run opts calls Map.empty)"
proof (induction calls arbitrary: n rule: rev_induct)
  case Nil
  show ?case by (simp add: stamps_upto_def)
next
  case (snoc c calls)
  obtain now ip where c: "c = (now, ip)" by (cases c)
  have s: "sorted (map fst calls)" and le: "\<forall>d \<in> set calls. fst d \<le> now"
    using snoc.prems(1) by (auto simp: c sorted_append)
  have "stamps_upto now (allowRate_run opts calls Map.empty)"
    by (rule snoc.IH [OF s le])
  then have "stamps_upto now (allowRate_run opts (calls @ [c]) Map.empty)"
    unfolding c allowRate_run_snoc by (rule allowRate_stamps_upto [OF assms])
  moreover have "now \<le> n" using snoc.prems(2) by (simp add: c)
  ultimately show ?case by (rule stamps_upto_mono)
qed

text \<open>
  C9. With rate limiting enabled, in a run of admission checks that starts from the
  empty table and reads a nondecreasing clock, right after each check the timestamps
  stored for the checked identity are in nondecreasing order and each is at most one
  window old at the time of the check.
\<close>

theorem allowRate_entry_invariant:
  assumes "EnableRateLimiting opts"
    and "sorted (map fst (calls @ [(now, ip)]))"
  shows "\<exists>t. allowRate_run opts (calls @ [(now, ip)]) Map.empty ip = Some t
    \<and> sorted t \<and> (\<forall>ts \<in> set t. 0 \<le> time_sub now ts \<and> time_sub now ts \<le> window)"
proof -
  let ?m = "allowRate_run opts calls Map.empty"
  have s: "sorted (map fst calls)" and le: "\<forall>d \<in> set calls. fst d \<le> now"
    using assms(2) by (auto simp: sorted_append)
  have inv: "stamps_upto now ?m"
    by (rule allowRate_run_stamps_upto [OF assms(1) s le])
  have entry: "allowRate_run opts (calls @ [(now, ip)]) Map.empty ip = Some (live now ?m ip @ [now])"
    unfolding allowRate_run_snoc allowRate_enabled [OF assms(1)] by simp
  have "sorted (live now ?m ip @ [now])"
    using live_sorted [OF inv] live_le [OF inv] by (auto simp: sorted_append)
  moreover have "\<forall>ts \<in> set (live now ?m ip @ [now]). 0 \<le> time_sub now ts \<and> time_sub now ts \<le> window"
    using live_le [OF inv] live_window by (auto simp: time_sub_self window_def intro: time_sub_nonneg)
  ultimately show ?thesis using entry by blast
qed

theorem allowRate_entry_invariant_witness:
  "\<exists>t. allowRate_run example_opts
         ([(0, ''a''), (5, ''b''), (70000000000, ''a'')] @ [(90000000000, ''a'')]) Map.empty ''a'' = Some t
    \<and> sorted t \<and> (\<forall>ts \<in> set t. 0 \<le> time_sub 90000000000 ts \<and> time_sub 90000000000 ts \<le> window)"
  by (rule allowRate_entry_invariant) (simp_all add: example_opts_def)

text \<open>
  C8. With rate limiting disabled, the admission check returns true for every identity
  and leaves the table exactly as it was.
\<close>

theorem allowRate_disabled:
  "\<not> EnableRateLimiting opts \<Longrightarrow> allowRate opts now ip m = (True, m)"
  by (simp add: allowRate_def)

theorem allowRate_disabled_witness:
  "allowRate (example_opts\<lparr>EnableRateLimiting := False\<rparr>) 7 ''10.0.0.1'' [''10.0.0.1'' \<mapsto> [1, 2, 3, 4, 5, 6]]
   = (True, [''10.0.0.1'' \<mapsto> [1, 2, 3, 4, 5, 6]])"
  by (rule allowRate_disabled) (simp add: example_opts_def)

section \<open>Properties of the submission pipeline\<close>

lemma serve_content_length:
  "contentLengthTooLarge cfg r \<Longrightarrow>
   serve e verify cfg now r w =
     (httpError ''invalid request'' StatusBadRequest, warnRefuse e r ''content-length too large'' w)"
  by (simp add: serve_def limitMiddleware_def contentLengthTooLarge_def)

lemma serve_passes_middleware:
  "\<not> contentLengthTooLarge cfg r \<Longrightarrow> serve e verify cfg now r w = ctaHandler e verify cfg now r w"
  by (auto simp add: serve_def limitMiddleware_def contentLengthTooLarge_def)

lemma ctaHandler_not_post:
  "Method r \<noteq> ''POST'' \<Longrightarrow> ctaHandler e verify cfg now r w = (httpError ''not found'' StatusNotFound, w)"
  by (simp add: ctaHandler_def)

lemma ctaHandler_fake_ua:
  "Method r = ''POST'' \<Longrightarrow> uaRejected cfg r \<Longrightarrow>
   ctaHandler e verify cfg now r w =
     (httpError ''invalid request'' StatusBadRequest, warnRefuse e r ''fake user agent'' w)"
  by (simp add: ctaHandler_def uaRejected_def Let_def)

lemma ctaHandler_rate_limit:
  "Method r = ''POST'' \<Longrightarrow> \<not> uaRejected cfg r \<Longrightarrow> \<not> rateAllowed e cfg now r w \<Longrightarrow>
   ctaHandler e verify cfg now r w =
     (httpError ''invalid request'' StatusTooManyRequests,
      warnRefuse e r ''rate limit'' (afterRate e cfg now r w))"
  by (simp add: ctaHandler_def uaRejected_def rateAllowed_def afterRate_def Let_def split_beta)

lemma ctaHandler_admitted:
  "Method r = ''POST'' \<Longrightarrow> \<not> uaRejected cfg r \<Longrightarrow> rateAllowed e cfg now r w \<Longrightarrow>
   ctaHandler e verify cfg now r w =
     (case decodeBody e (MaxBodySize (Options cfg)) (Body r) of
        DecodeError err \<Rightarrow>
          (httpError ''invalid request'' StatusBadRequest,
           warnRefuse e r (''bad json: %v'' @ err) (afterRate e cfg now r w))
      | DecodeEOF \<Rightarrow>
          (httpError ''invalid request'' StatusBadRequest,
           warnRefuse e r ''missing token'' (afterRate e cfg now r w))
      | Decoded token payload \<Rightarrow>
          if token = [] then
            (httpError ''invalid request'' StatusBadRequest,
             warnRefuse e r ''missing token'' (afterRate e cfg now r w))
          else
            (case verify (CFTurn cfg) token (clientIP e r) (afterRate e cfg now r w) of
               ((ok, None), w2) \<Rightarrow>
                 if ok then
                   (case SendMail e (SMTP cfg) ''New CTA Submission'' payload w2 of
                      (Some msg, w3) \<Rightarrow>
                        (httpError ''invalid request'' StatusInternalServerError,
                         w3\<lparr>logs := logs w3 @ [Warnf (''send mail failed: '' @ msg)]\<rparr>)
                    | (None, w3) \<Rightarrow> (Response StatusNoContent [], w3))
                 else (Panic ''invalid memory address or nil pointer dereference'', w2)
             | ((ok, Some msg), w2) \<Rightarrow>
                 (httpError ''invalid request'' StatusBadRequest,
                  warnRefuse e r (''turnstile failed: '' @ msg) w2)))"
  by (auto simp add: ctaHandler_def uaRejected_def rateAllowed_def afterRate_def Let_def split_beta
      split: decode_result.splits option.splits prod.splits)

lemma serve_admitted:
  "admitted e cfg now r w \<Longrightarrow>
   serve e verify cfg now r w =
     (case decodeBody e (MaxBodySize (Options cfg)) (Body r) of
        DecodeError err \<Rightarrow>
          (httpError ''invalid request'' StatusBadRequest,
           warnRefuse e r (''bad json: %v'' @ err) (afterRate e cfg now r w))
      | DecodeEOF \<Rightarrow>
          (httpError ''invalid request'' StatusBadRequest,
           warnRefuse e r ''missing token'' (afterRate e cfg now r w))
      | Decoded token payload \<Rightarrow>
          if token = [] then
            (httpError ''invalid request'' StatusBadRequest,
             warnRefuse e r ''missing token'' (afterRate e cfg now r w))
          else
            (case verify (CFTurn cfg) token (clientIP e r) (afterRate e cfg now r w) of
               ((ok, None), w2) \<Rightarrow>
                 if ok then
                   (case SendMail e (SMTP cfg) ''New CTA Submission'' payload w2 of
                      (Some msg, w3) \<Rightarrow>
                        (httpError ''invalid request'' StatusInternalServerError,
                         w3\<lparr>logs := logs w3 @ [Warnf (''send mail failed: '' @ msg)]\<rparr>)
                    | (None, w3) \<Rightarrow> (Response StatusNoContent [], w3))
                 else (Panic ''invalid memory address or nil pointer dereference'', w2)
             | ((ok, Some msg), w2) \<Rightarrow>
                 (httpError ''invalid request'' StatusBadRequest,
                  warnRefuse e r (''turnstile failed: '' @ msg) w2)))"
  unfolding admitted_def
  by (simp add: serve_passes_middleware ctaHandler_admitted)

lemmas example_defs =
  example_env_def example_cfg_def example_opts_def example_request_def example_world_def

lemmas status_defs =
  httpError_def StatusNoContent_def StatusBadRequest_def StatusNotFound_def
  StatusTooManyRequests_def StatusInternalServerError_def

lemmas string_defs =
  trimSpace_def leading_space_def trailing_space_def space_encodings_def hasPrefix_def
  hasSuffix_def toLower_def toLower_byte_def byte_def

lemmas guard_defs =
  contentLengthTooLarge_def uaRejected_def rateAllowed_def afterRate_def admitted_def
  isFakeUA_def clientIP_def allowRate_def

lemma ex_clientIP [simp]:
  "clientIP (example_env code answer) (example_request\<lparr>Method := m, ContentLength := n, UserAgent := u, Body := b\<rparr>) = ''203.0.113.7''"
  by (simp add: clientIP_def example_defs)

text \<open>
  C10 (as amended). A request to the submission endpoint with a method other than POST
  whose declared Content-Length does not exceed the limit is answered 404 with the body
  "not found" (and a newline), and nothing else happens: the rate-limit table, the log, the
  calls to the verification endpoint and the mails are as before.
\<close>

theorem serve_non_post:
  "\<not> contentLengthTooLarge cfg r \<Longrightarrow> Method r \<noteq> ''POST'' \<Longrightarrow>
   serve e verify cfg now r w = (Response 404 (''not found'' @ [CHR 0x0A]), w)"
  by (simp add: serve_passes_middleware ctaHandler_not_post status_defs)

text \<open>
  A GET of the sample request is answered 404 and leaves the world unchanged.
\<close>

theorem serve_non_post_witness:
  "serve (example_env 200 []) (VerifyTurnstile (example_env 200 [])) example_cfg 0
     (example_request\<lparr>Method := ''GET''\<rparr>) example_world
   = (Response 404 (''not found'' @ [CHR 0x0A]), example_world)"
  by (rule serve_non_post) (simp_all add: contentLengthTooLarge_def example_defs)

text \<open>
  C10 as stated fails: \<^verbatim>\<open>limitMiddleware\<close> runs before the method check, so a PUT that
  declares 5000 bytes against a limit of 4096 is answered 400 "invalid request" and is
  logged.
\<close>

theorem serve_non_post_counterexample:
  "Method (example_request\<lparr>Method := ''PUT'', ContentLength := 5000\<rparr>) \<noteq> ''POST''
   \<and> serve (example_env 200 []) (VerifyTurnstile (example_env 200 [])) example_cfg 0
       (example_request\<lparr>Method := ''PUT'', ContentLength := 5000\<rparr>) example_world
     = (Response 400 (''invalid request'' @ [CHR 0x0A]),
        example_world\<lparr>logs := [Refused ''203.0.113.7'' ''/-/cta'' ''content-length too large'']\<rparr>)"
  by (simp add: serve_def limitMiddleware_def warnRefuse_def clientIP_def status_defs example_defs)



lemma serve_missing_token:
  "admitted e cfg now r w \<Longrightarrow>
   decodeBody e (MaxBodySize (Options cfg)) (Body r) = DecodeEOF
     \<or> decodeBody e (MaxBodySize (Options cfg)) (Body r) = Decoded [] payload \<Longrightarrow>
   serve e verify cfg now r w =
     (httpError ''invalid request'' StatusBadRequest,
      warnRefuse e r ''missing token'' (afterRate e cfg now r w))"
  by (auto simp add: serve_admitted)


lemma serve_verify_false_nil:
  "admitted e cfg now r w \<Longrightarrow>
   decodeBody e (MaxBodySize (Options cfg)) (Body r) = Decoded token payload \<Longrightarrow> token \<noteq> [] \<Longrightarrow>
   verify (CFTurn cfg) token (clientIP e r) (afterRate e cfg now r w) = ((False, None), w2) \<Longrightarrow>
   serve e verify cfg now r w = (Panic ''invalid memory address or nil pointer dereference'', w2)"
  by (simp add: serve_admitted)


lemma serve_fake_ua:
  "\<not> contentLengthTooLarge cfg r \<Longrightarrow> Method r = ''POST'' \<Longrightarrow> uaRejected cfg r \<Longrightarrow>
   serve e verify cfg now r w =
     (httpError ''invalid request'' StatusBadRequest, warnRefuse e r ''fake user agent'' w)"
  by (simp add: serve_passes_middleware ctaHandler_fake_ua)

lemma serve_rate_limit:
  "\<not> contentLengthTooLarge cfg r \<Longrightarrow> Method r = ''POST'' \<Longrightarrow> \<not> uaRejected cfg r \<Longrightarrow>
   \<not> rateAllowed e cfg now r w \<Longrightarrow>
   serve e verify cfg now r w =
     (httpError ''invalid request'' StatusTooManyRequests,
      warnRefuse e r ''rate limit'' (afterRate e cfg now r w))"
  by (simp add: serve_passes_middleware ctaHandler_rate_limit)


lemma ex_not_too_large:
  "\<not> contentLengthTooLarge example_cfg (example_request\<lparr>Body := b\<rparr>)"
  by (simp add: contentLengthTooLarge_def example_defs)

lemma ex_ua_ok: "\<not> uaRejected example_cfg (example_request\<lparr>Body := b\<rparr>)"
  by (simp add: uaRejected_def isFakeUA_def example_defs string_defs)

lemma ex_clientIP_body:
  "clientIP (example_env code answer) (example_request\<lparr>Body := b\<rparr>) = ''203.0.113.7''"
  by (simp add: clientIP_def example_defs)

lemma ex_admitted:
  "admitted (example_env code answer) example_cfg 0 (example_request\<lparr>Body := b\<rparr>) example_world"
  unfolding admitted_def
  by (simp add: ex_not_too_large ex_ua_ok rateAllowed_def ex_clientIP_body)
     (simp add: example_defs allowRate_def)

lemma ex_afterRate:
  "afterRate (example_env code answer) example_cfg 0 (example_request\<lparr>Body := b\<rparr>) example_world
   = example_world\<lparr>rl := [''203.0.113.7'' \<mapsto> [0]]\<rparr>"
  unfolding afterRate_def ex_clientIP_body
  by (simp add: example_defs allowRate_def)

lemma ex_body: "example_request\<lparr>Body := Body example_request\<rparr> = example_request"
  by simp





lemma ex_request_facts:
  "admitted (example_env code answer) example_cfg 0 example_request example_world"
  "afterRate (example_env code answer) example_cfg 0 example_request example_world
     = example_world\<lparr>rl := [''203.0.113.7'' \<mapsto> [0]]\<rparr>"
  "clientIP (example_env code answer) example_request = ''203.0.113.7''"
  "decodeBody (example_env code answer) (MaxBodySize (Options example_cfg)) (Body example_request)
     = Decoded ''turnstile-token'' [(''name'', JString ''Alice'')]"
  using ex_admitted [of code answer "Body example_request"]
    ex_afterRate [of code answer "Body example_request"]
    ex_clientIP_body [of code answer "Body example_request"]
  unfolding ex_body by (simp_all add: example_defs)


lemma ex_verify_json:
  "fst (VerifyTurnstile (example_env code answer) (CFTurn example_cfg) token ip w)
   = (if code > 299
      then (False, Some (''turnstile verification failed with status: status Error Body: `'' @ answer @ ''`''))
      else if answer = ''{\"success\":true}'' then (True, None)
      else if answer = ''{\"success\":false}'' then (False, None)
      else (False, Some ''invalid character''))"
  by (simp add: VerifyTurnstile_def Let_def example_defs)

lemma ex_verify_form:
  "fst (VerifyTurnstile_form (example_env code answer) (CFTurn example_cfg) token ip w)
   = (if answer = ''{\"success\":true}'' then (True, None)
      else if answer = ''{\"success\":false}'' then (False, None)
      else (False, Some ''invalid character''))"
  by (simp add: VerifyTurnstile_form_def Let_def example_defs)




text \<open>
  C7. A submission whose decoded token is empty (or whose body is empty, which leaves the
  token empty) is rejected without any call to the verifier: the outcome does not depend
  on the verifier at all, no POST is issued and no mail is sent. The rejection is a client
  error, and for a request that passed the earlier checks it is 400 "invalid request"
  with the cause "missing token" in the log.
\<close>

theorem serve_empty_token:
  assumes "decodeBody e (MaxBodySize (Options cfg)) (Body r) = DecodeEOF
      \<or> decodeBody e (MaxBodySize (Options cfg)) (Body r) = Decoded [] payload"
  shows "serve e verify cfg now r w = serve e verify' cfg now r w
    \<and> posts (snd (serve e verify cfg now r w)) = posts w
    \<and> mails (snd (serve e verify cfg now r w)) = mails w
    \<and> fst (serve e verify cfg now r w)
        \<in> {Response 400 (''invalid request'' @ [CHR 0x0A]),
           Response 429 (''invalid request'' @ [CHR 0x0A]),
           Response 404 (''not found'' @ [CHR 0x0A])}
    \<and> (admitted e cfg now r w \<longrightarrow>
         serve e verify cfg now r w =
           (Response 400 (''invalid request'' @ [CHR 0x0A]),
            warnRefuse e r ''missing token'' (afterRate e cfg now r w)))"
proof -
  consider (cl) "contentLengthTooLarge cfg r"
    | (notpost) "\<not> contentLengthTooLarge cfg r" "Method r \<noteq> ''POST''"
    | (ua) "\<not> contentLengthTooLarge cfg r" "Method r = ''POST''" "uaRejected cfg r"
    | (rate) "\<not> contentLengthTooLarge cfg r" "Method r = ''POST''" "\<not> uaRejected cfg r"
        "\<not> rateAllowed e cfg now r w"
    | (adm) "admitted e cfg now r w"
    unfolding admitted_def by blast
  then show ?thesis
  proof cases
    case cl
    then show ?thesis
      by (simp add: serve_content_length admitted_def status_defs warnRefuse_def)
  next
    case notpost
    then show ?thesis
      by (simp add: serve_passes_middleware ctaHandler_not_post admitted_def status_defs)
  next
    case ua
    then show ?thesis
      by (simp add: serve_fake_ua admitted_def status_defs warnRefuse_def)
  next
    case rate
    then show ?thesis
      by (simp add: serve_rate_limit admitted_def status_defs warnRefuse_def afterRate_def)
  next
    case adm
    have "serve e v cfg now r w =
        (httpError ''invalid request'' StatusBadRequest,
         warnRefuse e r ''missing token'' (afterRate e cfg now r w))" for v
      using serve_missing_token [OF adm assms] .
    then show ?thesis
      by (simp add: status_defs warnRefuse_def afterRate_def)
  qed
qed

text \<open>
  The sample request without its token.
\<close>

theorem serve_empty_token_witness:
  "serve (example_env 200 ''{\"success\":true}'')
      (VerifyTurnstile (example_env 200 ''{\"success\":true}'')) example_cfg 0
      (example_request\<lparr>Body := ''{\"payload\":{\"name\":\"Alice\"}}''\<rparr>) example_world
   = (Response 400 (''invalid request'' @ [CHR 0x0A]),
      example_world\<lparr>rl := [''203.0.113.7'' \<mapsto> [0]],
                     logs := [Refused ''203.0.113.7'' ''/-/cta'' ''missing token'']\<rparr>)
   \<and> posts (snd (serve (example_env 200 ''{\"success\":true}'')
      (VerifyTurnstile (example_env 200 ''{\"success\":true}'')) example_cfg 0
      (example_request\<lparr>Body := ''{\"payload\":{\"name\":\"Alice\"}}''\<rparr>) example_world)) = []"
proof -
  let ?e = "example_env 200 ''{\"success\":true}''"
  let ?r = "example_request\<lparr>Body := ''{\"payload\":{\"name\":\"Alice\"}}''\<rparr>"
  have dec: "decodeBody ?e (MaxBodySize (Options example_cfg)) (Body ?r) = DecodeEOF
      \<or> decodeBody ?e (MaxBodySize (Options example_cfg)) (Body ?r)
          = Decoded [] [(''name'', JString ''Alice'')]"
    by (simp add: example_defs)
  have adm: "admitted ?e example_cfg 0 ?r example_world"
    by (rule ex_admitted)
  have "serve ?e (VerifyTurnstile ?e) example_cfg 0 ?r example_world
      = (Response 400 (''invalid request'' @ [CHR 0x0A]),
         warnRefuse ?e ?r ''missing token'' (afterRate ?e example_cfg 0 ?r example_world))"
    and "posts (snd (serve ?e (VerifyTurnstile ?e) example_cfg 0 ?r example_world)) = posts example_world"
    using serve_empty_token [OF dec, of "VerifyTurnstile ?e" 0 example_world] adm
    by blast+
  then show ?thesis
    unfolding ex_afterRate warnRefuse_def ex_clientIP_body
    by (simp add: example_defs)
qed

lemma ex_serve_false_nil:
  assumes "fst (verify (CFTurn example_cfg) ''turnstile-token'' ''203.0.113.7''
             (example_world\<lparr>rl := [''203.0.113.7'' \<mapsto> [0]]\<rparr>)) = (False, None)"
  shows "fst (serve (example_env code answer) verify example_cfg 0 example_request example_world)
    = Panic ''invalid memory address or nil pointer dereference''"
proof -
  let ?w1 = "example_world\<lparr>rl := [''203.0.113.7'' \<mapsto> [0]]\<rparr>"
  have "verify (CFTurn example_cfg) ''turnstile-token'' ''203.0.113.7'' ?w1
      = ((False, None), snd (verify (CFTurn example_cfg) ''turnstile-token'' ''203.0.113.7'' ?w1))"
    using assms by (simp add: prod_eq_iff)
  then have "serve (example_env code answer) verify example_cfg 0 example_request example_world
      = (Panic ''invalid memory address or nil pointer dereference'',
         snd (verify (CFTurn example_cfg) ''turnstile-token'' ''203.0.113.7'' ?w1))"
    using serve_verify_false_nil [of "example_env code answer" example_cfg 0 example_request
        example_world "''turnstile-token''" "[(''name'', JString ''Alice'')]" verify]
    by (simp add: ex_request_facts)
  then show ?thesis by simp
qed

text \<open>
  C2 (the code departs from the claim). When the verification endpoint answers 200 with
  \<^verbatim>\<open>{"success":false}\<close>, \<^verbatim>\<open>VerifyTurnstile\<close> returns \<^verbatim>\<open>(false, nil)\<close>, and the handler, building
  its log message from \<^verbatim>\<open>err.Error()\<close>, panics instead of answering 400. Both definitions of
  \<^verbatim>\<open>VerifyTurnstile\<close> lead to it.
\<close>

theorem serve_challenge_failed_panics:
  "fst (VerifyTurnstile (example_env 200 ''{\"success\":false}'') (CFTurn example_cfg)
          ''turnstile-token'' ''203.0.113.7'' (example_world\<lparr>rl := [''203.0.113.7'' \<mapsto> [0]]\<rparr>))
     = (False, None)
   \<and> fst (serve (example_env 200 ''{\"success\":false}'')
          (VerifyTurnstile (example_env 200 ''{\"success\":false}'')) example_cfg 0
          example_request example_world)
     = Panic ''invalid memory address or nil pointer dereference''
   \<and> fst (serve (example_env 200 ''{\"success\":false}'')
          (VerifyTurnstile_form (example_env 200 ''{\"success\":false}'')) example_cfg 0
          example_request example_world)
     = Panic ''invalid memory address or nil pointer dereference''"
  by (simp add: ex_serve_false_nil ex_verify_json ex_verify_form)

lemma VerifyTurnstile_status_above_299:
  assumes "Secret cfg \<noteq> []" "Endpoint cfg \<noteq> []"
    and "httpPost e (Endpoint cfg) ''application/json''
           (marshalTurnstileRequest (Secret cfg) token ip) = PostResponse code status body"
    and "code > 299"
  shows "\<exists>msg. fst (VerifyTurnstile e cfg token ip w) = (False, Some msg)"
  using assms by (auto simp add: VerifyTurnstile_def Let_def split: sum.splits)

text \<open>
  C4 (the code departs from the claim). \<^verbatim>\<open>VerifyTurnstile\<close> treats only a status above 299
  as an error of the verification service: an answer with status 101 or 99 and the body
  \<^verbatim>\<open>{"success":true}\<close> is decoded and returned as a success with a nil error. The definition
  that posts a form does not look at the status at all and accepts a 500 the same way.
\<close>

theorem VerifyTurnstile_status_below_200:
  "fst (VerifyTurnstile (example_env 101 ''{\"success\":true}'') (CFTurn example_cfg)
          ''turnstile-token'' ''203.0.113.7'' example_world) = (True, None)
   \<and> fst (VerifyTurnstile (example_env 99 ''{\"success\":true}'') (CFTurn example_cfg)
          ''turnstile-token'' ''203.0.113.7'' example_world) = (True, None)
   \<and> fst (VerifyTurnstile_form (example_env 500 ''{\"success\":true}'') (CFTurn example_cfg)
          ''turnstile-token'' ''203.0.113.7'' example_world) = (True, None)"
  by (simp add: ex_verify_json ex_verify_form)

section \<open>Properties of the sanitizer\<close>






end
